theory Spec2Isabelle
  imports Main
begin

section \<open>Python values, errors and decimal numbers\<close>

text \<open>
  The bank ledger of \<^verbatim>\<open>src/pr5/bank_system.py\<close> computes with Python's
  \<^verbatim>\<open>decimal.Decimal\<close> in the default context: precision 28, rounding
  ROUND_HALF_EVEN, Emax 999999, traps on InvalidOperation and Overflow. A finite decimal
  is a coefficient and an exponent, \<open>Fin c e\<close> standing for \<open>c * 10 ^ e\<close>; the special
  values are the infinities, the quiet NaN and the signalling NaN. A negative zero is
  identified with zero (Python compares the two equal), and a NaN carries no payload.
\<close>

datatype decimal = Fin int int | Inf bool | NaN | SNaN

text \<open>
  The exceptions the code can raise. \<open>TypeError\<close>, \<open>ValueError\<close> and
  \<open>PermissionError\<close> are raised by the source itself; \<open>InvalidOperation\<close> and
  \<open>Overflow\<close> are the trapped signals of the decimal module.
\<close>

datatype error = TypeError | ValueError | PermissionError | InvalidOperation | Overflow

text \<open>
  The dynamically typed arguments. A float reaches the code only through
  \<^verbatim>\<open>Decimal(str(value))\<close>, so it is represented by the decimal that its printed
  form denotes: the float \<^verbatim>\<open>1.005\<close> prints as \<^verbatim>\<open>1.005\<close> and is
  \<open>PFloat (Fin 1005 (-3))\<close>, \<^verbatim>\<open>float('inf')\<close> is \<open>PFloat (Inf False)\<close> and
  \<^verbatim>\<open>float('nan')\<close> is \<open>PFloat NaN\<close>. \<open>PAccount a\<close> is a reference to the
  \<^verbatim>\<open>BankAccount\<close> object at address \<open>a\<close>.
\<close>

datatype pyval = PNone | PBool bool | PInt int | PFloat decimal | PDecimal decimal
  | PStr string | PAccount nat

subsection \<open>The arithmetic context\<close>

definition prec :: nat where
  "prec = 28"

definition Emax :: int where
  "Emax = 999999"

fun ndigits :: "nat \<Rightarrow> nat" where
  "ndigits n = (if n < 10 then 1 else Suc (ndigits (n div 10)))"

declare ndigits.simps [simp del]

text \<open>
  \<open>round_half_even n k\<close> and \<open>round_half_up n k\<close> drop the last \<open>k\<close> digits of the
  magnitude \<open>n\<close>.
\<close>

definition round_half_even :: "nat \<Rightarrow> nat \<Rightarrow> nat" where
  "round_half_even n k =
     (let q = n div 10 ^ k; r = n mod 10 ^ k
      in if 2 * r > 10 ^ k \<or> (2 * r = 10 ^ k \<and> odd q) then q + 1 else q)"

definition round_half_up :: "nat \<Rightarrow> nat \<Rightarrow> nat" where
  "round_half_up n k =
     (let q = n div 10 ^ k; r = n mod 10 ^ k
      in if 2 * r \<ge> 10 ^ k then q + 1 else q)"

text \<open>
  \<open>ctx_fix\<close> is what the context does to the exact result of an arithmetic operation: a
  coefficient of more than 28 digits is rounded half-even to 28 digits, and a result whose
  adjusted exponent exceeds Emax raises Overflow. (Underflow is not trapped and only
  produces values below \<open>10 ^ (-999999)\<close>; every result of the code is compared or
  quantized to two places next, where such a value behaves as the exact one does.)
\<close>

definition ctx_fix :: "int \<Rightarrow> int \<Rightarrow> error + decimal" where
  "ctx_fix c e =
     (let n = nat \<bar>c\<bar>; d = ndigits n
      in if c = 0 then Inr (Fin 0 e)
         else if e + int d - 1 > Emax then Inl Overflow
         else if d \<le> prec then Inr (Fin c e)
         else
           (let k = d - prec; m = round_half_even n k;
                (m', e') = (if m = 10 ^ prec then (10 ^ (prec - 1), e + int k + 1)
                            else (m, e + int k))
            in if e' + int prec - 1 > Emax then Inl Overflow
               else Inr (Fin (sgn c * int m') e')))"

text \<open>Decimal addition, negation, subtraction and multiplication (\<^verbatim>\<open>+ - *\<close>).\<close>

fun dec_add :: "decimal \<Rightarrow> decimal \<Rightarrow> error + decimal" where
  "dec_add SNaN _ = Inl InvalidOperation"
| "dec_add _ SNaN = Inl InvalidOperation"
| "dec_add NaN _ = Inr NaN"
| "dec_add _ NaN = Inr NaN"
| "dec_add (Inf s) (Inf t) = (if s = t then Inr (Inf s) else Inl InvalidOperation)"
| "dec_add (Inf s) (Fin _ _) = Inr (Inf s)"
| "dec_add (Fin _ _) (Inf t) = Inr (Inf t)"
| "dec_add (Fin c1 e1) (Fin c2 e2) =
     (let e = min e1 e2
      in ctx_fix (c1 * 10 ^ nat (e1 - e) + c2 * 10 ^ nat (e2 - e)) e)"

fun dec_neg :: "decimal \<Rightarrow> error + decimal" where
  "dec_neg SNaN = Inl InvalidOperation"
| "dec_neg NaN = Inr NaN"
| "dec_neg (Inf s) = Inr (Inf (\<not> s))"
| "dec_neg (Fin c e) = ctx_fix (- c) e"

fun dec_sub :: "decimal \<Rightarrow> decimal \<Rightarrow> error + decimal" where
  "dec_sub SNaN _ = Inl InvalidOperation"
| "dec_sub _ SNaN = Inl InvalidOperation"
| "dec_sub NaN _ = Inr NaN"
| "dec_sub _ NaN = Inr NaN"
| "dec_sub (Inf s) (Inf t) = (if s \<noteq> t then Inr (Inf s) else Inl InvalidOperation)"
| "dec_sub (Inf s) (Fin _ _) = Inr (Inf s)"
| "dec_sub (Fin _ _) (Inf t) = Inr (Inf (\<not> t))"
| "dec_sub (Fin c1 e1) (Fin c2 e2) =
     (let e = min e1 e2
      in ctx_fix (c1 * 10 ^ nat (e1 - e) - c2 * 10 ^ nat (e2 - e)) e)"

fun dec_mul :: "decimal \<Rightarrow> decimal \<Rightarrow> error + decimal" where
  "dec_mul SNaN _ = Inl InvalidOperation"
| "dec_mul _ SNaN = Inl InvalidOperation"
| "dec_mul NaN _ = Inr NaN"
| "dec_mul _ NaN = Inr NaN"
| "dec_mul (Inf s) (Inf t) = Inr (Inf (s \<noteq> t))"
| "dec_mul (Inf s) (Fin c _) = (if c = 0 then Inl InvalidOperation else Inr (Inf (s \<noteq> (c < 0))))"
| "dec_mul (Fin c _) (Inf t) = (if c = 0 then Inl InvalidOperation else Inr (Inf ((c < 0) \<noteq> t)))"
| "dec_mul (Fin c1 e1) (Fin c2 e2) = ctx_fix (c1 * c2) (e1 + e2)"

text \<open>
  The ordering comparisons (\<^verbatim>\<open>< <= >\<close>) are exact and raise InvalidOperation on
  a NaN. \<open>dec_less\<close> is \<^verbatim>\<open>x < y\<close>.
\<close>

fun dec_less :: "decimal \<Rightarrow> decimal \<Rightarrow> error + bool" where
  "dec_less SNaN _ = Inl InvalidOperation"
| "dec_less _ SNaN = Inl InvalidOperation"
| "dec_less NaN _ = Inl InvalidOperation"
| "dec_less _ NaN = Inl InvalidOperation"
| "dec_less (Inf s) (Inf t) = Inr (s \<and> \<not> t)"
| "dec_less (Inf s) (Fin _ _) = Inr s"
| "dec_less (Fin _ _) (Inf t) = Inr (\<not> t)"
| "dec_less (Fin c1 e1) (Fin c2 e2) =
     (let e = min e1 e2
      in Inr (c1 * 10 ^ nat (e1 - e) < c2 * 10 ^ nat (e2 - e)))"

definition dec_le :: "decimal \<Rightarrow> decimal \<Rightarrow> error + bool" where
  "dec_le x y = (case dec_less y x of Inl err \<Rightarrow> Inl err | Inr b \<Rightarrow> Inr (\<not> b))"

definition dec_greater :: "decimal \<Rightarrow> decimal \<Rightarrow> error + bool" where
  "dec_greater x y = dec_less y x"

subsection \<open>Money\<close>

text \<open>
  \<^verbatim>\<open>_MONEY_Q = Decimal("0.01")\<close>, and \<open>quantize x\<close> is
  \<^verbatim>\<open>x.quantize(_MONEY_Q, rounding=ROUND_HALF_UP)\<close>: the value rounded half-up
  (ties away from zero) to exponent \<open>-2\<close>. It raises InvalidOperation on an infinity, on
  a signalling NaN, and when the rounded coefficient has more than 28 digits; a quiet NaN
  is returned as it is.
\<close>

definition rescale2 :: "int \<Rightarrow> int \<Rightarrow> int" where
  "rescale2 c e =
     (if e \<ge> -2 then c * 10 ^ nat (e + 2)
      else sgn c * int (round_half_up (nat \<bar>c\<bar>) (nat (- 2 - e))))"

fun quantize :: "decimal \<Rightarrow> error + decimal" where
  "quantize SNaN = Inl InvalidOperation"
| "quantize NaN = Inr NaN"
| "quantize (Inf _) = Inl InvalidOperation"
| "quantize (Fin c e) =
     (let c' = rescale2 c e
      in if \<bar>c'\<bar> \<ge> 10 ^ prec then Inl InvalidOperation else Inr (Fin c' (-2)))"

text \<open>
  \<^verbatim>\<open>_to_decimal_money\<close>. \<^verbatim>\<open>str\<close> of an int of more than 4300 digits
  raises ValueError (CPython's limit on integer string conversion); \<^verbatim>\<open>Decimal(str(d))\<close>
  of a Decimal is the Decimal itself.
\<close>

definition int_max_str_digits :: nat where
  "int_max_str_digits = 4300"

definition to_decimal_money :: "pyval \<Rightarrow> error + decimal" where
  "to_decimal_money v =
     (case v of
        PBool _ \<Rightarrow> Inl TypeError
      | PInt i \<Rightarrow> if \<bar>i\<bar> \<ge> 10 ^ int_max_str_digits then Inl ValueError else quantize (Fin i 0)
      | PFloat d \<Rightarrow> quantize d
      | PDecimal d \<Rightarrow> quantize d
      | _ \<Rightarrow> Inl TypeError)"

text \<open>A Money value: what \<open>quantize\<close> returns on a finite number.\<close>

definition Money :: "int \<Rightarrow> decimal" where
  "Money c = Fin c (-2)"

definition is_money :: "decimal \<Rightarrow> bool" where
  "is_money d = (case d of Fin c e \<Rightarrow> e = -2 \<and> \<bar>c\<bar> < 10 ^ prec | _ \<Rightarrow> False)"


subsection \<open>Printing\<close>

text \<open>
  \<^verbatim>\<open>str\<close> of a Decimal, as the f-strings of the transaction log use it. A Python
  string is modelled as the list of the bytes of its UTF-8 encoding.
\<close>

definition digit_char :: "nat \<Rightarrow> char" where
  "digit_char d = char_of (48 + d)"

fun str_nat :: "nat \<Rightarrow> string" where
  "str_nat n = (if n < 10 then [digit_char n] else str_nat (n div 10) @ [digit_char (n mod 10)])"

declare str_nat.simps [simp del]

definition str_signed :: "int \<Rightarrow> string" where
  \<comment> \<open>the format \<^verbatim>\<open>%+d\<close>\<close>
  "str_signed i = (if i < 0 then ''-'' else ''+'') @ str_nat (nat \<bar>i\<bar>)"

fun str_decimal :: "decimal \<Rightarrow> string" where
  "str_decimal SNaN = ''sNaN''"
| "str_decimal NaN = ''NaN''"
| "str_decimal (Inf s) = (if s then ''-Infinity'' else ''Infinity'')"
| "str_decimal (Fin c e) =
     (let digits = str_nat (nat \<bar>c\<bar>);
          len = int (length digits);
          leftdigits = e + len;
          dotplace = (if e \<le> 0 \<and> leftdigits > -6 then leftdigits else 1);
          (intpart, fracpart) =
            (if dotplace \<le> 0 then (''0'', ''.'' @ replicate (nat (- dotplace)) CHR ''0'' @ digits)
             else if dotplace \<ge> len then (digits @ replicate (nat (dotplace - len)) CHR ''0'', [])
             else (take (nat dotplace) digits, ''.'' @ drop (nat dotplace) digits));
          ex = (if leftdigits = dotplace then [] else ''E'' @ str_signed (leftdigits - dotplace))
      in (if c < 0 then ''-'' else []) @ intpart @ fracpart @ ex)"

declare str_decimal.simps [simp del]

section \<open>The currency converter\<close>

definition SUPPORTED_CURRENCIES :: "string list" where
  "SUPPORTED_CURRENCIES = [''RUB'', ''USD'', ''EUR'', ''GBP'']"

text \<open>
  The rate table is a dictionary from ordered pairs of currency codes to rates, here an
  association list. \<^verbatim>\<open>rates or {...}\<close> takes the built-in table when no table
  or an empty one is given.
\<close>

type_synonym rates = "((string \<times> string) \<times> decimal) list"

definition default_rates :: rates where
  "default_rates =
     [((''RUB'', ''USD''), Fin 1 (-2)),
      ((''USD'', ''RUB''), Fin 100 0),
      ((''RUB'', ''EUR''), Fin 90909091 (-10)),
      ((''EUR'', ''RUB''), Fin 110 0),
      ((''RUB'', ''GBP''), Fin 76923077 (-10)),
      ((''GBP'', ''RUB''), Fin 130 0)]"

definition CurrencyConverter_init :: "rates option \<Rightarrow> rates" where
  "CurrencyConverter_init rs =
     (case rs of None \<Rightarrow> default_rates | Some r \<Rightarrow> if r = [] then default_rates else r)"

definition convert :: "rates \<Rightarrow> pyval \<Rightarrow> string \<Rightarrow> string \<Rightarrow> error + decimal" where
  "convert rs amount from_currency to_currency =
     (if from_currency \<notin> set SUPPORTED_CURRENCIES then Inl ValueError
      else if to_currency \<notin> set SUPPORTED_CURRENCIES then Inl ValueError
      else case amount of
        PDecimal d \<Rightarrow>
          (case quantize d of
             Inl err \<Rightarrow> Inl err
           | Inr amount' \<Rightarrow>
               if from_currency = to_currency then Inr amount'
               else (case map_of rs (from_currency, to_currency) of
                       None \<Rightarrow> Inl ValueError
                     | Some rate \<Rightarrow>
                         (case dec_mul amount' rate of
                            Inl err \<Rightarrow> Inl err
                          | Inr p \<Rightarrow> quantize p)))
      | _ \<Rightarrow> Inl TypeError)"

text \<open>
  A converter argument is any object with a \<^verbatim>\<open>convert\<close> method (the tests pass
  subclasses that override it), so it is modelled by that method;
  \<^verbatim>\<open>converter or CurrencyConverter()\<close> takes the default converter for None.
\<close>

type_synonym converter = "pyval \<Rightarrow> string \<Rightarrow> string \<Rightarrow> error + decimal"

definition converter_or_default :: "converter option \<Rightarrow> converter" where
  "converter_or_default cv =
     (case cv of None \<Rightarrow> convert (CurrencyConverter_init None) | Some f \<Rightarrow> f)"

section \<open>Accounts in the object store\<close>

text \<open>
  Accounts and transaction lists are mutable objects that several references can share, so
  they live in a store: \<open>objs\<close> holds the account objects, \<open>lists\<close> the list objects,
  and \<open>next_ref\<close> is the address the next new list gets. The field \<open>transactions\<close> of
  an account is the address of its list.
\<close>

record BankAccount =
  owner :: string
  balance :: decimal
  currency :: string
  transactions :: nat
  is_blocked :: bool
  overdraft_limit :: decimal

record heap =
  objs :: "nat \<Rightarrow> BankAccount"
  lists :: "nat \<Rightarrow> string list"
  next_ref :: nat

definition set_balance :: "nat \<Rightarrow> decimal \<Rightarrow> heap \<Rightarrow> heap" where
  "set_balance a b h = h\<lparr>objs := (objs h)(a := (objs h a)\<lparr>balance := b\<rparr>)\<rparr>"

definition append_transaction :: "nat \<Rightarrow> string \<Rightarrow> heap \<Rightarrow> heap" where
  \<comment> \<open>\<^verbatim>\<open>account.transactions.append(line)\<close>\<close>
  "append_transaction a line h =
     (let r = transactions (objs h a) in h\<lparr>lists := (lists h)(r := lists h r @ [line])\<rparr>)"

definition log_of :: "heap \<Rightarrow> nat \<Rightarrow> string list" where
  "log_of h a = lists h (transactions (objs h a))"

text \<open>
  An operation returns its value or the exception it raised, together with the store it
  leaves behind. \<open>raising h x f\<close> continues with the value of \<open>x\<close>, or stops with the
  exception of \<open>x\<close> in the store \<open>h\<close>.
\<close>

definition raising :: "heap \<Rightarrow> error + 'a \<Rightarrow> ('a \<Rightarrow> (error + 'b) \<times> heap) \<Rightarrow> (error + 'b) \<times> heap" where
  "raising h x f = (case x of Inl err \<Rightarrow> (Inl err, h) | Inr v \<Rightarrow> f v)"

definition MAX_DEPOSIT :: decimal where
  "MAX_DEPOSIT = Fin 100000000 (-2)"

text \<open>The Cyrillic words of the log lines, as UTF-8.\<close>

definition word_fee :: string where
  "word_fee = [CHR 0xD0, CHR 0xBA, CHR 0xD0, CHR 0xBE, CHR 0xD0, CHR 0xBC, CHR 0xD0, CHR 0xB8, CHR 0xD1, CHR 0x81, CHR 0xD1, CHR 0x81, CHR 0xD0, CHR 0xB8, CHR 0xD1, CHR 0x8F]"

definition word_transfer :: string where
  "word_transfer = [CHR 0xD0, CHR 0x9F, CHR 0xD0, CHR 0xB5, CHR 0xD1, CHR 0x80, CHR 0xD0, CHR 0xB5, CHR 0xD0, CHR 0xB4, CHR 0xD0, CHR 0xB0, CHR 0xD1, CHR 0x87, CHR 0xD0, CHR 0xB0]"

definition word_to :: string where
  "word_to = [CHR 0xD0, CHR 0xB2]"

definition word_from :: string where
  "word_from = [CHR 0xD0, CHR 0xBE, CHR 0xD1, CHR 0x82]"

definition deposit :: "heap \<Rightarrow> nat \<Rightarrow> pyval \<Rightarrow> (error + decimal) \<times> heap" where
  "deposit h self amount =
     raising h (to_decimal_money amount) (\<lambda>amount_d.
     raising h (dec_le amount_d (Fin 0 0)) (\<lambda>nonpos.
       if nonpos then (Inl ValueError, h)
       else
     raising h (dec_greater amount_d MAX_DEPOSIT) (\<lambda>too_large.
       if too_large then (Inl ValueError, h)
       else
     raising h (dec_add (balance (objs h self)) amount_d) (\<lambda>s.
     raising h (quantize s) (\<lambda>b.
       let h1 = set_balance self b h;
           h2 = append_transaction self
                  (''+'' @ str_decimal amount_d @ '' '' @ currency (objs h1 self)) h1
       in (Inr (balance (objs h2 self)), h2))))))"

definition withdraw :: "heap \<Rightarrow> nat \<Rightarrow> pyval \<Rightarrow> (error + decimal) \<times> heap" where
  "withdraw h self amount =
     (if is_blocked (objs h self) then (Inl PermissionError, h)
      else
     raising h (to_decimal_money amount) (\<lambda>amount_d.
     raising h (dec_le amount_d (Fin 0 0)) (\<lambda>nonpos.
       if nonpos then (Inl ValueError, h)
       else
     raising h (dec_mul amount_d (Fin 1 (-2))) (\<lambda>p.
     raising h (quantize p) (\<lambda>fee.
     raising h (dec_add amount_d fee) (\<lambda>total.
     raising h (dec_sub (balance (objs h self)) total) (\<lambda>rest.
     raising h (dec_neg (overdraft_limit (objs h self))) (\<lambda>lim.
     raising h (dec_less rest lim) (\<lambda>short.
       if short then (Inl ValueError, h)
       else
     raising h (dec_sub (balance (objs h self)) total) (\<lambda>rest'.
     raising h (quantize rest') (\<lambda>b.
       let h1 = set_balance self b h;
           h2 = append_transaction self
                  (''-'' @ str_decimal amount_d @ '' ('' @ word_fee @ '': '' @ str_decimal fee
                     @ '') '' @ currency (objs h1 self)) h1
       in (Inr amount_d, h2))))))))))))"

text \<open>
  \<^verbatim>\<open>get_statement\<close> returns a dictionary with five fixed keys, here a record;
  \<^verbatim>\<open>list(self.transactions)\<close> allocates a new list object holding the elements of
  the account's list.
\<close>

record statement =
  st_owner :: string
  st_currency :: string
  st_balance :: decimal
  st_transactions :: nat
  st_is_blocked :: bool

definition get_statement :: "heap \<Rightarrow> nat \<Rightarrow> statement \<times> heap" where
  "get_statement h self =
     (let acc = objs h self;
          r = next_ref h;
          h' = h\<lparr>lists := (lists h)(r := lists h (transactions acc)), next_ref := Suc r\<rparr>
      in (\<lparr>st_owner = owner acc, st_currency = currency acc, st_balance = balance acc,
           st_transactions = r, st_is_blocked = is_blocked acc\<rparr>, h'))"

definition transfer ::
  "heap \<Rightarrow> nat \<Rightarrow> pyval \<Rightarrow> pyval \<Rightarrow> converter option \<Rightarrow> (error + decimal) \<times> heap" where
  "transfer h self target_account amount cv =
     (if is_blocked (objs h self) then (Inl PermissionError, h)
      else case target_account of
        PAccount target \<Rightarrow>
     raising h (to_decimal_money amount) (\<lambda>amount_d.
     raising h (dec_le amount_d (Fin 0 0)) (\<lambda>nonpos.
       if nonpos then (Inl ValueError, h)
       else
     let conv = converter_or_default cv in
     raising h (dec_sub (balance (objs h self)) amount_d) (\<lambda>rest.
     raising h (dec_neg (overdraft_limit (objs h self))) (\<lambda>lim.
     raising h (dec_less rest lim) (\<lambda>short.
       if short then (Inl ValueError, h)
       else
     raising h (conv (PDecimal amount_d) (currency (objs h self)) (currency (objs h target)))
       (\<lambda>credited.
     raising h (dec_sub (balance (objs h self)) amount_d) (\<lambda>rest'.
     raising h (quantize rest') (\<lambda>b.
     let h1 = set_balance self b h in
     raising h1 (dec_add (balance (objs h1 target)) credited) (\<lambda>s.
     raising h1 (quantize s) (\<lambda>tb.
       let h2 = set_balance target tb h1;
           h3 = append_transaction self
                  (word_transfer @ '' -'' @ str_decimal amount_d @ '' '' @ currency (objs h2 self)
                     @ '' '' @ word_to @ '' '' @ owner (objs h2 target)) h2;
           h4 = append_transaction target
                  (word_transfer @ '' +'' @ str_decimal credited @ '' ''
                     @ currency (objs h3 target) @ '' '' @ word_from @ '' '' @ owner (objs h3 self)) h3
       in (Inr credited, h4)))))))))))
      | _ \<Rightarrow> (Inl TypeError, h))"

section \<open>The bank\<close>

text \<open>
  \<^verbatim>\<open>Bank.accounts\<close> is a dictionary from owner names to account objects; its
  values are iterated in insertion order.
\<close>

record Bank =
  name :: string
  accounts :: "(string \<times> nat) list"

fun total_loop :: "heap \<Rightarrow> converter \<Rightarrow> string \<Rightarrow> nat list \<Rightarrow> decimal \<Rightarrow> error + decimal" where
  "total_loop h conv cur [] tot = Inr tot"
| "total_loop h conv cur (a # rest) tot =
     (let acc = objs h a
      in if is_blocked acc then total_loop h conv cur rest tot
         else (case conv (PDecimal (balance acc)) (currency acc) cur of
                 Inl err \<Rightarrow> Inl err
               | Inr v \<Rightarrow>
                   (case dec_add tot v of
                      Inl err \<Rightarrow> Inl err
                    | Inr tot' \<Rightarrow> total_loop h conv cur rest tot')))"

definition total_deposits :: "heap \<Rightarrow> Bank \<Rightarrow> string \<Rightarrow> converter option \<Rightarrow> error + decimal" where
  "total_deposits h bank cur cv =
     (if cur \<notin> set SUPPORTED_CURRENCIES then Inl ValueError
      else let conv = converter_or_default cv
           in case total_loop h conv cur (map snd (accounts bank)) (Fin 0 (-2)) of
                Inl err \<Rightarrow> Inl err
              | Inr tot \<Rightarrow> quantize tot)"

section \<open>Example stores\<close>

text \<open>
  Account \<open>0\<close> is A with 100.00 RUB, account \<open>1\<close> is B with 0.00 USD, both as the
  constructor leaves them: not blocked, no overdraft, an empty log of their own.
\<close>

definition new_account :: "string \<Rightarrow> decimal \<Rightarrow> string \<Rightarrow> nat \<Rightarrow> BankAccount" where
  "new_account ow b cur r =
     \<lparr>owner = ow, balance = b, currency = cur, transactions = r, is_blocked = False,
      overdraft_limit = Fin 0 (-2)\<rparr>"

definition two_accounts :: heap where
  "two_accounts =
     \<lparr>objs = (\<lambda>a. if a = 0 then new_account ''A'' (Fin 10000 (-2)) ''RUB'' 0
                    else new_account ''B'' (Fin 0 (-2)) ''USD'' 1),
      lists = (\<lambda>_. []), next_ref = 2\<rparr>"

definition blocked_accounts :: heap where
  "blocked_accounts =
     two_accounts\<lparr>objs := (objs two_accounts)(0 := (objs two_accounts 0)\<lparr>is_blocked := True\<rparr>)\<rparr>"

definition BadConv :: converter where
  \<comment> \<open>the failing converter of the tests\<close>
  "BadConv amount from_currency to_currency = Inl ValueError"

section \<open>Arithmetic that stays within the precision\<close>

lemma ndigits_le: "0 < k \<Longrightarrow> n < 10 ^ k \<Longrightarrow> ndigits n \<le> k"
proof (induction k arbitrary: n)
  case 0
  then show ?case by simp
next
  case (Suc k)
  show ?case
  proof (cases "n < 10")
    case True
    then show ?thesis by (simp add: ndigits.simps)
  next
    case False
    with Suc.prems have k: "0 < k" by (cases k) auto
    from Suc.prems have "n div 10 < 10 ^ k" by (simp add: less_mult_imp_div_less mult.commute)
    with Suc.IH k have "ndigits (n div 10) \<le> k" by blast
    with False show ?thesis by (subst ndigits.simps) simp
  qed
qed

lemma ctx_fix_exact:
  assumes "\<bar>c\<bar> < 10 ^ 28" and "e \<le> 0"
  shows "ctx_fix c e = Inr (Fin c e)"
proof -
  have "nat \<bar>c\<bar> < 10 ^ 28" using assms(1) by (simp add: nat_less_iff)
  then have d: "ndigits (nat \<bar>c\<bar>) \<le> 28" by (intro ndigits_le) simp_all
  then have "e + int (ndigits (nat \<bar>c\<bar>)) - 1 \<le> Emax" using assms(2) by (simp add: Emax_def)
  with d show ?thesis by (auto simp: ctx_fix_def Let_def prec_def)
qed

lemma quantize_money: "\<bar>c\<bar> < 10 ^ 28 \<Longrightarrow> quantize (Fin c (-2)) = Inr (Fin c (-2))"
  by (simp add: rescale2_def prec_def)

lemma quantize_overflow: "10 ^ 28 \<le> \<bar>c\<bar> \<Longrightarrow> quantize (Fin c (-2)) = Inl InvalidOperation"
  by (simp add: rescale2_def prec_def)

lemma int_str_ok: "\<bar>i\<bar> < 10 ^ 28 \<Longrightarrow> \<not> 10 ^ int_max_str_digits \<le> \<bar>i::int\<bar>"
proof -
  assume a: "\<bar>i\<bar> < 10 ^ 28"
  have "(10::int) ^ 28 \<le> 10 ^ int_max_str_digits"
    by (rule power_increasing) (simp_all add: int_max_str_digits_def)
  with a show ?thesis by linarith
qed

lemma to_decimal_money_int:
  assumes "\<bar>i\<bar> < 10 ^ 26"
  shows "to_decimal_money (PInt i) = Inr (Fin (i * 100) (-2))"
proof -
  from assms have "\<bar>i\<bar> < 10 ^ 28" by simp
  then have s: "\<not> 10 ^ int_max_str_digits \<le> \<bar>i\<bar>" by (rule int_str_ok)
  from assms have "\<bar>i * 100\<bar> < 10 ^ 28" by (simp add: abs_mult)
  with s show ?thesis by (simp add: to_decimal_money_def rescale2_def prec_def)
qed

lemma ndigits_gt: "10 ^ k \<le> n \<Longrightarrow> k < ndigits n"
proof (induction k arbitrary: n)
  case 0
  then show ?case by (subst ndigits.simps) simp
next
  case (Suc k)
  then have "10 ^ k \<le> n div 10" by (simp add: less_eq_div_iff_mult_less_eq mult.commute)
  with Suc.IH have "k < ndigits (n div 10)" by blast
  moreover from Suc.prems have "\<not> n < 10"
    by (metis not_less one_le_numeral one_le_power order_trans power_Suc mult.right_neutral mult_le_mono2 )
  ultimately show ?case by (subst ndigits.simps) simp
qed

lemma ctx_fix_29:
  assumes "10 ^ 28 \<le> \<bar>c\<bar>" and "\<bar>c\<bar> < 10 ^ 29 - 5"
  shows "\<exists>m. ctx_fix c (-2) = Inr (Fin (sgn c * m) (-1)) \<and> 10 ^ 27 \<le> m \<and> m < 10 ^ 28
           \<and> 10 * m \<le> \<bar>c\<bar> + 5"
proof -
  let ?n = "nat \<bar>c\<bar>"
  have lo: "10 ^ 28 \<le> ?n" using assms(1) by (simp add: le_nat_iff)
  have hi: "?n < 10 ^ 29 - 5" using assms(2) by (simp add: nat_less_iff)
  have "28 < ndigits ?n" using lo by (rule ndigits_gt)
  moreover have "ndigits ?n \<le> 29" using hi by (intro ndigits_le) simp_all
  ultimately have d: "ndigits ?n = 29" by simp
  let ?m = "round_half_even ?n 1"
  have m_lo: "10 ^ 27 \<le> ?m" using lo by (simp add: round_half_even_def Let_def) linarith
  have m_hi: "?m < 10 ^ 28"
  proof -
    define q r where "q = ?n div 10" and "r = ?n mod 10"
    have n: "?n = 10 * q + r" by (simp add: q_def r_def)
    have b: "10 * q + r < 10 ^ 29 - 5" using hi n by simp
    have m: "?m = (if 10 < 2 * r \<or> (2 * r = 10 \<and> odd q) then q + 1 else q)"
      unfolding round_half_even_def Let_def q_def r_def by simp
    show ?thesis unfolding m using b by (simp split: if_splits)
  qed
  have c0: "c \<noteq> 0" using assms(1) by auto
  have "ctx_fix c (-2) = Inr (Fin (sgn c * int ?m) (-1))"
    using d m_hi c0 by (simp add: ctx_fix_def Let_def prec_def Emax_def)
  moreover have "10 ^ 27 \<le> int ?m" "int ?m < 10 ^ 28"
    using m_lo m_hi by simp_all
  moreover have "10 * int ?m \<le> \<bar>c\<bar> + 5"
  proof -
    define q r where "q = ?n div 10" and "r = ?n mod 10"
    have n: "?n = 10 * q + r" by (simp add: q_def r_def)
    have m: "?m = (if 10 < 2 * r \<or> (2 * r = 10 \<and> odd q) then q + 1 else q)"
      unfolding round_half_even_def Let_def q_def r_def by simp
    have "10 * ?m \<le> 10 * q + r + 5" unfolding m by (simp split: if_splits)
    then have "10 * ?m \<le> ?n + 5" using n by simp
    then have "int (10 * ?m) \<le> int (?n + 5)" by (simp only: of_nat_le_iff)
    then show ?thesis by simp
  qed
  ultimately show ?thesis by blast
qed

text \<open>A sum or difference of two Money values that needs 29 digits is rounded to one
  place, and then no longer fits two places.\<close>

lemma quantize_after_overflow:
  assumes "10 ^ 28 \<le> \<bar>c\<bar>" and "\<bar>c\<bar> < 10 ^ 29 - 5"
  shows "\<exists>d. ctx_fix c (-2) = Inr d \<and> quantize d = Inl InvalidOperation"
proof -
  from ctx_fix_29 [OF assms] obtain m where
    m: "ctx_fix c (-2) = Inr (Fin (sgn c * m) (-1))" "10 ^ 27 \<le> m"
    by blast
  have "c \<noteq> 0" using assms(1) by auto
  then have "\<bar>sgn c * m\<bar> = m" using m(2) by (simp add: abs_mult abs_sgn_eq)
  then have "quantize (Fin (sgn c * m) (-1)) = Inl InvalidOperation"
    using m(2) by (simp add: rescale2_def prec_def abs_mult)
  with m show ?thesis by blast
qed

lemma less_after_overflow:
  assumes "c \<le> - (10 ^ 28)" and "- (10 ^ 29 - 5) < c" and "\<bar>l\<bar> < 10 ^ 28"
  shows "\<exists>d. ctx_fix c (-2) = Inr d \<and> dec_less d (Fin l (-2)) = Inr True"
proof -
  have "10 ^ 28 \<le> \<bar>c\<bar>" "\<bar>c\<bar> < 10 ^ 29 - 5" using assms by simp_all
  from ctx_fix_29 [OF this] obtain m where
    m: "ctx_fix c (-2) = Inr (Fin (sgn c * m) (-1))" "10 ^ 27 \<le> m"
    by blast
  have "sgn c = -1" using assms(1) by (simp add: sgn_if)
  then have "dec_less (Fin (sgn c * m) (-1)) (Fin l (-2)) = Inr True"
    using m(2) assms(3) by simp
  with m show ?thesis by blast
qed

lemma dec_add_money: "dec_add (Fin a (-2)) (Fin b (-2)) = ctx_fix (a + b) (-2)"
  by simp

lemma dec_sub_money: "dec_sub (Fin a (-2)) (Fin b (-2)) = ctx_fix (a - b) (-2)"
  by simp

lemma dec_le_zero: "dec_le (Fin a (-2)) (Fin 0 0) = Inr (a \<le> 0)"
  by (simp add: dec_le_def not_less)

lemma dec_greater_max: "dec_greater (Fin a (-2)) MAX_DEPOSIT = Inr (100000000 < a)"
  by (simp add: dec_greater_def MAX_DEPOSIT_def)

lemma to_decimal_money_range:
  assumes "to_decimal_money v = Inr (Fin a e)"
  shows "e = -2 \<and> \<bar>a\<bar> < 10 ^ 28"
proof -
  have q: "\<And>d. quantize d = Inr (Fin a e) \<Longrightarrow> e = -2 \<and> \<bar>a\<bar> < 10 ^ 28"
    subgoal for d
      by (cases d) (auto simp: Let_def prec_def split: if_splits)
    done
  from assms show ?thesis
    by (cases v) (auto simp: to_decimal_money_def dest!: q split: if_splits simp del: quantize.simps)
qed

lemma round_half_up_2: "round_half_up n 2 = (n + 50) div 100"
proof -
  define q r where "q = n div 100" and "r = n mod 100"
  have n: "n = r + q * 100" and r: "r < 100" by (simp_all add: q_def r_def)
  have "(r + 50) div 100 = (if 50 \<le> r then 1 else 0)"
  proof (cases "50 \<le> r")
    case True
    with r have "(r + 50) div 100 = 1" by (intro div_nat_eqI) simp_all
    with True show ?thesis by simp
  next
    case False
    then show ?thesis by simp
  qed
  moreover have "(n + 50) div 100 = q + (r + 50) div 100"
    by (subst n) (simp add: add.assoc)
  moreover have "round_half_up n 2 = (if 50 \<le> r then q + 1 else q)"
    by (simp add: round_half_up_def Let_def q_def r_def)
  ultimately show ?thesis by simp
qed

lemma fee_money:
  assumes "0 < a" and "a < 10 ^ 28"
  shows "\<exists>p. dec_mul (Fin a (-2)) (Fin 1 (-2)) = Inr p \<and> quantize p = Inr (Fin ((a + 50) div 100) (-2))"
proof -
  have "ctx_fix a (-4) = Inr (Fin a (-4))" using assms by (intro ctx_fix_exact) simp_all
  moreover have "rescale2 a (-4) = (a + 50) div 100"
    using assms(1) by (simp add: rescale2_def round_half_up_2 zdiv_int nat_add_distrib)
  moreover have "\<bar>(a + 50) div 100\<bar> < 10 ^ 28" using assms by simp
  ultimately show ?thesis by (simp add: prec_def Let_def)
qed

section \<open>Deposits and withdrawals on an account that holds Money\<close>

lemma deposit_money:
  assumes n: "to_decimal_money amount = Inr (Fin a (-2))"
    and b: "balance (objs h self) = Fin b (-2)" and r: "\<bar>b\<bar> < 10 ^ 28"
  shows "deposit h self amount =
    (if a \<le> 0 \<or> 100000000 < a then (Inl ValueError, h)
     else if b + a < 10 ^ 28 then
       (Inr (Fin (b + a) (-2)),
        h\<lparr>objs := (objs h)(self := (objs h self)\<lparr>balance := Fin (b + a) (-2)\<rparr>),
          lists := (lists h)(transactions (objs h self) :=
            log_of h self @ [''+'' @ str_decimal (Fin a (-2)) @ '' '' @ currency (objs h self)])\<rparr>)
     else (Inl InvalidOperation, h))"
proof -
  consider (bad) "a \<le> 0 \<or> 100000000 < a"
    | (ok) "0 < a" "a \<le> 100000000" "b + a < 10 ^ 28"
    | (over) "0 < a" "a \<le> 100000000" "10 ^ 28 \<le> b + a"
    by linarith
  then show ?thesis
  proof cases
    case bad
    then show ?thesis
      by (auto simp: deposit_def raising_def n dec_le_zero dec_greater_max)
  next
    case ok
    then have "\<bar>b + a\<bar> < 10 ^ 28" using r by simp
    then have s: "ctx_fix (b + a) (-2) = Inr (Fin (b + a) (-2))" "quantize (Fin (b + a) (-2)) = Inr (Fin (b + a) (-2))"
      by (rule ctx_fix_exact, simp, rule quantize_money)
    show ?thesis using ok
      by (simp add: deposit_def raising_def n b dec_le_zero dec_greater_max s
          set_balance_def append_transaction_def log_of_def Let_def del: quantize.simps)
  next
    case over
    then have "10 ^ 28 \<le> \<bar>b + a\<bar>" "\<bar>b + a\<bar> < 10 ^ 29 - 5" using r by simp_all
    from quantize_after_overflow [OF this] obtain d where "ctx_fix (b + a) (-2) = Inr d" "quantize d = Inl InvalidOperation"
      by blast
    then show ?thesis using over
      by (simp add: deposit_def raising_def n b dec_le_zero dec_greater_max del: quantize.simps)
  qed
qed

lemma withdraw_money:
  assumes u: "\<not> is_blocked (objs h self)"
    and n: "to_decimal_money amount = Inr (Fin a (-2))" and pos: "0 < a"
    and b: "balance (objs h self) = Fin b (-2)" and rb: "\<bar>b\<bar> < 10 ^ 28"
    and l: "overdraft_limit (objs h self) = Fin l (-2)" and rl: "\<bar>l\<bar> < 10 ^ 28"
    and funds: "b + l < 10 ^ 28"
  shows "withdraw h self amount =
    (let fee = (a + 50) div 100
     in if b - (a + fee) < - l then (Inl ValueError, h)
        else (Inr (Fin a (-2)),
          h\<lparr>objs := (objs h)(self := (objs h self)\<lparr>balance := Fin (b - (a + fee)) (-2)\<rparr>),
            lists := (lists h)(transactions (objs h self) :=
              log_of h self @ [''-'' @ str_decimal (Fin a (-2)) @ '' ('' @ word_fee @ '': ''
                @ str_decimal (Fin fee (-2)) @ '') '' @ currency (objs h self)])\<rparr>))"
proof -
  define fee where "fee = (a + 50) div 100"
  from to_decimal_money_range [OF n] have ra: "a < 10 ^ 28" by simp
  from fee_money [OF pos ra] obtain p where
    p: "dec_mul (Fin a (-2)) (Fin 1 (-2)) = Inr p" "quantize p = Inr (Fin fee (-2))"
    unfolding fee_def by blast
  have fee0: "0 \<le> fee" "fee \<le> a" using pos by (simp_all add: fee_def)
  have neg: "dec_neg (Fin l (-2)) = Inr (Fin (- l) (-2))"
    using rl by (simp add: ctx_fix_exact)
  have start: "withdraw h self amount =
     raising h (ctx_fix (a + fee) (-2)) (\<lambda>total.
     raising h (dec_sub (Fin b (-2)) total) (\<lambda>rest.
     raising h (dec_less rest (Fin (- l) (-2))) (\<lambda>short.
       if short then (Inl ValueError, h)
       else
     raising h (dec_sub (Fin b (-2)) total) (\<lambda>rest'.
     raising h (quantize rest') (\<lambda>q.
       (Inr (Fin a (-2)),
        h\<lparr>objs := (objs h)(self := (objs h self)\<lparr>balance := q\<rparr>),
          lists := (lists h)(transactions (objs h self) :=
              log_of h self @ [''-'' @ str_decimal (Fin a (-2)) @ '' ('' @ word_fee @ '': ''
                @ str_decimal (Fin fee (-2)) @ '') '' @ currency (objs h self)])\<rparr>))))))"
    using u pos
    by (simp add: withdraw_def raising_def n dec_le_zero p b l neg dec_add_money
        set_balance_def append_transaction_def log_of_def Let_def
        del: quantize.simps dec_mul.simps dec_sub.simps dec_neg.simps dec_add.simps dec_less.simps
        cong: if_cong sum.case_cong)
  show ?thesis
  proof (cases "a + fee < 10 ^ 28")
    case True
    then have t: "ctx_fix (a + fee) (-2) = Inr (Fin (a + fee) (-2))"
      using pos fee0 by (intro ctx_fix_exact) simp_all
    show ?thesis
    proof (cases "\<bar>b - (a + fee)\<bar> < 10 ^ 28")
      case True
      then have r: "ctx_fix (b - (a + fee)) (-2) = Inr (Fin (b - (a + fee)) (-2))"
        by (intro ctx_fix_exact) simp_all
      have q: "quantize (Fin (b - (a + fee)) (-2)) = Inr (Fin (b - (a + fee)) (-2))"
        using True by (rule quantize_money)
      show ?thesis
        unfolding start fee_def [symmetric] Let_def
        by (simp add: raising_def t r q dec_sub_money del: quantize.simps dec_sub.simps)
    next
      case False
      then have lo: "b - (a + fee) \<le> - (10 ^ 28)" using rb pos fee0 by simp
      have hi: "- (10 ^ 29 - 5) < b - (a + fee)" using rb \<open>a + fee < 10 ^ 28\<close> by simp
      have "\<bar>- l\<bar> < 10 ^ 28" using rl by simp
      from less_after_overflow [OF lo hi this] obtain d where
        d: "ctx_fix (b - (a + fee)) (-2) = Inr d" "dec_less d (Fin (- l) (-2)) = Inr True"
        by blast
      have "b - (a + fee) < - l" using lo rl by simp
      then show ?thesis
        unfolding start fee_def [symmetric] Let_def
        by (simp add: raising_def t d dec_sub_money del: quantize.simps dec_less.simps dec_sub.simps)
    qed
  next
    case False
    then have "10 ^ 28 \<le> \<bar>a + fee\<bar>" "\<bar>a + fee\<bar> < 10 ^ 29 - 5"
      using pos fee0 ra by simp_all
    from ctx_fix_29 [OF this] obtain m where
      m: "ctx_fix (a + fee) (-2) = Inr (Fin (sgn (a + fee) * m) (-1))" "10 ^ 27 \<le> m"
        "10 * m \<le> \<bar>a + fee\<bar> + 5"
      by blast
    have "sgn (a + fee) = 1" using pos fee0 by (simp add: sgn_if)
    with m have t: "ctx_fix (a + fee) (-2) = Inr (Fin m (-1))" by simp
    have m10: "10 ^ 28 \<le> 10 * m" "10 * m < 2 * 10 ^ 28 + 5"
      using m(2,3) pos fee0 ra by simp_all
    have sub: "dec_sub (Fin b (-2)) (Fin m (-1)) = ctx_fix (b - m * 10) (-2)"
      by simp
    have short: "\<exists>d. ctx_fix (b - m * 10) (-2) = Inr d \<and> dec_less d (Fin (- l) (-2)) = Inr True"
    proof (cases "\<bar>b - m * 10\<bar> < 10 ^ 28")
      case True
      then have "ctx_fix (b - m * 10) (-2) = Inr (Fin (b - m * 10) (-2))"
        by (intro ctx_fix_exact) simp_all
      moreover have "b - m * 10 < - l" using funds m10 by simp
      ultimately show ?thesis by simp
    next
      case False
      then have lo: "b - m * 10 \<le> - (10 ^ 28)" using rb m10 by simp
      have hi: "- (10 ^ 29 - 5) < b - m * 10" using rb m10 by simp
      have "\<bar>- l\<bar> < 10 ^ 28" using rl by simp
      from less_after_overflow [OF lo hi this] show ?thesis .
    qed
    then obtain d where d: "ctx_fix (b - m * 10) (-2) = Inr d" "dec_less d (Fin (- l) (-2)) = Inr True"
      by blast
    have "b - (a + fee) < - l" using funds False by simp
    then show ?thesis
      unfolding start fee_def [symmetric] Let_def
      by (simp add: raising_def t sub d del: quantize.simps dec_less.simps dec_sub.simps)
  qed
qed

section \<open>Failures leave the store alone\<close>

text \<open>
  C10. On a blocked account, \<open>withdraw\<close> and \<open>transfer\<close> look at the blocked flag
  before anything else: whatever the amount (and, for a transfer, whatever the target and
  the converter), the call raises PermissionError and the store is unchanged.
\<close>

theorem blocked_account_fails_first:
  "is_blocked (objs h self) \<Longrightarrow>
     withdraw h self amount = (Inl PermissionError, h) \<and>
     transfer h self target amount cv = (Inl PermissionError, h)"
  by (simp add: withdraw_def transfer_def)

theorem blocked_account_fails_first_witness:
  "is_blocked (objs blocked_accounts 0) \<and>
   withdraw blocked_accounts 0 (PBool True) = (Inl PermissionError, blocked_accounts) \<and>
   transfer blocked_accounts 0 PNone (PBool True) None = (Inl PermissionError, blocked_accounts)"
proof -
  have b: "is_blocked (objs blocked_accounts 0)"
    by (simp add: blocked_accounts_def)
  from blocked_account_fails_first [OF b, of "PBool True" PNone None] b
  show ?thesis by simp
qed

text \<open>
  C1. If the conversion that a transfer performs (of the normalized amount, from the
  sender's currency to the target's) fails, the transfer fails and returns the store it
  was given: no balance and no log of any account has changed.
\<close>

theorem transfer_atomic_when_conversion_fails:
  assumes "to_decimal_money amount = Inr amount_d"
    and "converter_or_default cv (PDecimal amount_d)
           (currency (objs h self)) (currency (objs h target)) = Inl err"
  shows "\<exists>e. transfer h self (PAccount target) amount cv = (Inl e, h)"
  using assms
  by (auto simp: transfer_def raising_def Let_def split: sum.splits)

theorem transfer_atomic_when_conversion_fails_witness:
  "to_decimal_money (PInt 10) = Inr (Fin 1000 (-2)) \<and>
   converter_or_default (Some BadConv) (PDecimal (Fin 1000 (-2)))
     (currency (objs two_accounts 0)) (currency (objs two_accounts 1)) = Inl ValueError \<and>
   (\<exists>e. transfer two_accounts 0 (PAccount 1) (PInt 10) (Some BadConv) = (Inl e, two_accounts))"
proof -
  have n: "to_decimal_money (PInt 10) = Inr (Fin 1000 (-2))"
    using to_decimal_money_int [of 10] by simp
  have c: "converter_or_default (Some BadConv) (PDecimal (Fin 1000 (-2)))
     (currency (objs two_accounts 0)) (currency (objs two_accounts 1)) = Inl ValueError"
    by (simp add: converter_or_default_def BadConv_def)
  from transfer_atomic_when_conversion_fails [OF n c] n c show ?thesis by simp
qed

end
